theory Spec2Isabelle
  imports Main "HOL-Library.Sublist"
begin

section \<open>Values shared by the driver and the model wrapper\<close>

text \<open>
  \<open>model_args.Task\<close> is an enum declared outside the two source files. The driver
  compares against its members \<open>PLAN_PREDICTOR\<close> and \<open>ACTION_GENERATOR\<close>; every
  further member is \<open>OTHER_TASK\<close> with its name.
\<close>

datatype Task = PLAN_PREDICTOR | ACTION_GENERATOR | OTHER_TASK string

text \<open>The exceptions that the two files can raise, and \<open>Raised\<close> for a failure inside a collaborator.\<close>

datatype exn =
    NameError string
  | AttributeError string
  | AssertionError
  | StopIteration
  | FileNotFoundError string
  | Raised string

text \<open>
  The configuration classes are declared outside the source files; they are records whose
  fields are the getters that the source calls.
\<close>

record DecoderArgs =
  pretrained_plan_predictor :: bool
  pretrained_plan_predictor_filepath :: string
  end_to_end :: bool

record ModelArgs =
  args_get_task :: Task
  get_decoder_args :: DecoderArgs

record TrainingArgs =
  get_experiment_name :: string
  log_with_slack :: bool
  get_save_directory :: string

record ProgramArgs =
  get_training_args :: TrainingArgs
  get_model_args :: ModelArgs


section \<open>The module owned by a wrapper\<close>

text \<open>
  \<open>self._model\<close> holds \<open>None\<close>, one of the repository's networks, or a
  \<open>nn.DataParallel\<close> container around what was there before. A network is its named
  parameters (in registration order) and its training flag; the tensors are of any type \<open>'t\<close>.
\<close>

datatype 't nn_Module =
    NoneModule
  | Net "(string \<times> 't) list" bool
  | DataParallel "'t nn_Module"

text \<open>A checkpoint store: the files written by \<open>save\<close>, by path.\<close>

type_synonym 't checkpoints = "string \<rightharpoonup> (string \<times> 't) list"

text \<open>
  \<open>nn.Module.named_parameters\<close> and \<open>nn.Module.parameters\<close> of the numerical framework: a
  container lists the parameters of its child, the names prefixed with the child's
  attribute name. On \<open>None\<close> the attribute does not exist.
\<close>

fun registered_parameters :: "'t nn_Module \<Rightarrow> (string \<times> 't) list" where
  "registered_parameters NoneModule = []"
| "registered_parameters (Net ps tr) = ps"
| "registered_parameters (DataParallel m) =
     map (\<lambda>(n, p). (''module.'' @ n, p)) (registered_parameters m)"

definition module_named_parameters :: "'t nn_Module \<Rightarrow> exn + (string \<times> 't) list" where
  "module_named_parameters m =
     (case m of NoneModule \<Rightarrow> Inl (AttributeError ''named_parameters'')
      | _ \<Rightarrow> Inr (registered_parameters m))"

definition module_parameters :: "'t nn_Module \<Rightarrow> exn + 't list" where
  "module_parameters m =
     (case m of NoneModule \<Rightarrow> Inl (AttributeError ''parameters'')
      | _ \<Rightarrow> Inr (map snd (registered_parameters m)))"

text \<open>\<open>nn.Module.train(mode)\<close>: sets the flag on the module and its children and returns the module.\<close>

fun set_training :: "bool \<Rightarrow> 't nn_Module \<Rightarrow> 't nn_Module" where
  "set_training b NoneModule = NoneModule"
| "set_training b (Net ps tr) = Net ps b"
| "set_training b (DataParallel m) = DataParallel (set_training b m)"

definition module_train :: "bool \<Rightarrow> 't nn_Module \<Rightarrow> 't nn_Module \<times> (exn + 't nn_Module)" where
  "module_train b m =
     (case m of NoneModule \<Rightarrow> (m, Inl (AttributeError (if b then ''train'' else ''eval'')))
      | _ \<Rightarrow> (set_training b m, Inr (set_training b m)))"

text \<open>The attribute \<open>.module\<close> exists on the container only.\<close>

fun module_attr :: "'t nn_Module \<Rightarrow> exn + 't nn_Module" where
  "module_attr (DataParallel m) = Inr m"
| "module_attr NoneModule = Inl (AttributeError ''module'')"
| "module_attr (Net ps tr) = Inl (AttributeError ''module'')"

text \<open>
  Modelled from the spec: the methods \<open>save\<close> and \<open>load\<close> of the repository's networks are
  not in the source files. The spec has them "persist/restore the owned module's
  parameters to/from a path": \<open>save\<close> writes the network's named parameters at the path,
  \<open>load\<close> replaces them by what the file at the path holds and fails when there is none.
  Only a network has these methods; \<open>None\<close> and the container do not.
\<close>

fun module_save :: "'t nn_Module \<Rightarrow> string \<Rightarrow> 't checkpoints \<Rightarrow> 't checkpoints \<times> (exn + unit)" where
  "module_save (Net ps tr) filename fs = (fs(filename \<mapsto> ps), Inr ())"
| "module_save NoneModule filename fs = (fs, Inl (AttributeError ''save''))"
| "module_save (DataParallel m) filename fs = (fs, Inl (AttributeError ''save''))"

fun module_load :: "'t nn_Module \<Rightarrow> string \<Rightarrow> 't checkpoints \<Rightarrow> 't nn_Module \<times> (exn + unit)" where
  "module_load (Net ps tr) filename fs =
     (case fs filename of
        None \<Rightarrow> (Net ps tr, Inl (FileNotFoundError filename))
      | Some ps' \<Rightarrow> (Net ps' tr, Inr ()))"
| "module_load NoneModule filename fs = (NoneModule, Inl (AttributeError ''load''))"
| "module_load (DataParallel m) filename fs = (DataParallel m, Inl (AttributeError ''load''))"

text \<open>
  \<open>get_predictions\<close> of a network is not in the source files either; it is the parameter
  \<open>gp\<close>, a function of the network's parameters, its training flag and the call's arguments.
\<close>

fun module_get_predictions ::
  "((string \<times> 't) list \<Rightarrow> bool \<Rightarrow> 'a \<Rightarrow> exn + 'b) \<Rightarrow> 't nn_Module \<Rightarrow> 'a \<Rightarrow> exn + 'b" where
  "module_get_predictions gp (Net ps tr) a = gp ps tr a"
| "module_get_predictions gp NoneModule a = Inl (AttributeError ''get_predictions'')"
| "module_get_predictions gp (DataParallel m) a = Inl (AttributeError ''get_predictions'')"


section \<open>ModelWrapper\<close>

record 't ModelWrapper =
  self_args :: ModelArgs
  self_task :: Task
  self_parallelized :: bool
  self_model :: "'t nn_Module"
  self_logger :: "string option"

text \<open>
  \<open>__init__\<close>; \<open>device_count\<close> is what \<open>torch.cuda.device_count()\<close> returns. The log lines of
  the wrapper go to the logging module and are not part of its state.
\<close>

definition ModelWrapper_init :: "ModelArgs \<Rightarrow> string option \<Rightarrow> nat \<Rightarrow> 't ModelWrapper" where
  "ModelWrapper_init model_arguments logger device_count =
     (let self = \<lparr>self_args = model_arguments,
                  self_task = args_get_task model_arguments,
                  self_parallelized = False,
                  self_model = NoneModule,
                  self_logger = logger\<rparr>
      in if device_count > 1 then self\<lparr>self_parallelized := True\<rparr> else self)"

text \<open>\<open>__str__\<close>; \<open>repr\<close> is the framework's rendering of a module.\<close>

definition ModelWrapper_str :: "('t nn_Module \<Rightarrow> string) \<Rightarrow> 't ModelWrapper \<Rightarrow> string" where
  "ModelWrapper_str repr self = repr (self_model self)"

text \<open>
  \<open>_put_on_device\<close>. \<open>.cuda()\<close> moves the tensors and returns the module itself, and fails on
  \<open>None\<close>; \<open>next\<close> on the parameters of a module without any raises \<open>StopIteration\<close>. The
  assignments made before an exception stay.
\<close>

definition ModelWrapper_put_on_device ::
  "'t ModelWrapper \<Rightarrow> nat \<Rightarrow> 't ModelWrapper \<times> (exn + unit)" where
  "ModelWrapper_put_on_device self device_count =
     (let self1 = (if self_parallelized self
                   then self\<lparr>self_model := DataParallel (self_model self)\<rparr> else self)
      in if device_count > 0 \<and> self_model self1 = NoneModule
         then (self1, Inl (AttributeError ''cuda''))
         else (case module_parameters (self_model self1) of
                 Inl e \<Rightarrow> (self1, Inl e)
               | Inr [] \<Rightarrow> (self1, Inl StopIteration)
               | Inr (p # ps) \<Rightarrow> (self1, Inr ())))"

text \<open>
  Modelled from the spec: what \<open>train_loop\<close> does is in the concrete wrappers, outside the
  source files (here it is abstract, its body \<open>pass\<close>). The spec has the wrapper "mutated
  via training steps", with "repeated train/eval mode toggles and loss computations during
  \<open>train_loop\<close>" and a "final save", returning "the filesystem path of the best
  checkpoint": \<open>optimise\<close> is that procedure, on the owned module and the checkpoint store.
\<close>

definition ModelWrapper_train_loop ::
  "('t nn_Module \<Rightarrow> 't checkpoints \<Rightarrow> ('t nn_Module \<times> 't checkpoints) \<times> (exn + string)) \<Rightarrow>
   't ModelWrapper \<Rightarrow> 't checkpoints \<Rightarrow> ('t ModelWrapper \<times> 't checkpoints) \<times> (exn + string)" where
  "ModelWrapper_train_loop optimise self fs =
     (case optimise (self_model self) fs of
        ((m, fs'), r) \<Rightarrow> ((self\<lparr>self_model := m\<rparr>, fs'), r))"

definition ModelWrapper_named_parameters :: "'t ModelWrapper \<Rightarrow> exn + (string \<times> 't) list" where
  "ModelWrapper_named_parameters self =
     (if self_parallelized self
      then (case module_attr (self_model self) of
              Inl e \<Rightarrow> Inl e
            | Inr m \<Rightarrow> module_named_parameters m)
      else module_named_parameters (self_model self))"

definition ModelWrapper_get_arguments :: "'t ModelWrapper \<Rightarrow> ModelArgs" where
  "ModelWrapper_get_arguments self = self_args self"

definition ModelWrapper_parameters :: "'t ModelWrapper \<Rightarrow> exn + 't list" where
  "ModelWrapper_parameters self = module_parameters (self_model self)"

definition ModelWrapper_train :: "'t ModelWrapper \<Rightarrow> 't ModelWrapper \<times> (exn + 't nn_Module)" where
  "ModelWrapper_train self =
     (case module_train True (self_model self) of (m, r) \<Rightarrow> (self\<lparr>self_model := m\<rparr>, r))"

definition ModelWrapper_eval :: "'t ModelWrapper \<Rightarrow> 't ModelWrapper \<times> (exn + 't nn_Module)" where
  "ModelWrapper_eval self =
     (case module_train False (self_model self) of (m, r) \<Rightarrow> (self\<lparr>self_model := m\<rparr>, r))"

text \<open>
  \<open>load\<close> changes the network in place: in the parallel case the container then holds the
  changed network.
\<close>

definition ModelWrapper_load ::
  "'t ModelWrapper \<Rightarrow> string \<Rightarrow> 't checkpoints \<Rightarrow> 't ModelWrapper \<times> (exn + unit)" where
  "ModelWrapper_load self filename fs =
     (if self_parallelized self
      then (case module_attr (self_model self) of
              Inl e \<Rightarrow> (self, Inl e)
            | Inr m \<Rightarrow> (case module_load m filename fs of
                         (m', r) \<Rightarrow> (self\<lparr>self_model := DataParallel m'\<rparr>, r)))
      else (case module_load (self_model self) filename fs of
              (m', r) \<Rightarrow> (self\<lparr>self_model := m'\<rparr>, r)))"

definition ModelWrapper_save ::
  "'t ModelWrapper \<Rightarrow> string \<Rightarrow> 't checkpoints \<Rightarrow> 't checkpoints \<times> (exn + unit)" where
  "ModelWrapper_save self filename fs =
     (if self_parallelized self
      then (case module_attr (self_model self) of
              Inl e \<Rightarrow> (fs, Inl e)
            | Inr m \<Rightarrow> module_save m filename fs)
      else module_save (self_model self) filename fs)"

definition ModelWrapper_get_predictions ::
  "((string \<times> 't) list \<Rightarrow> bool \<Rightarrow> 'a \<Rightarrow> exn + 'b) \<Rightarrow> 't ModelWrapper \<Rightarrow> 'a \<Rightarrow> exn + 'b" where
  "ModelWrapper_get_predictions gp self a =
     (if self_parallelized self
      then (case module_attr (self_model self) of
              Inl e \<Rightarrow> Inl e
            | Inr m \<Rightarrow> module_get_predictions gp m a)
      else module_get_predictions gp (self_model self) a)"

definition get_task :: "'t ModelWrapper \<Rightarrow> Task" where
  "get_task self = self_task self"


subsection \<open>A wrapper in use\<close>

text \<open>
  The calls a client can make on a wrapper. An exception ends the call, not the object:
  \<open>call\<close> gives the wrapper and the checkpoint store as the call leaves them, returned or
  raised. \<open>Assign_model\<close> is the assignment of the network by a concrete wrapper's constructor.
\<close>

datatype ('t, 'a) wrapper_call =
    Assign_model "'t nn_Module"
  | Put_on_device nat
  | Str
  | Train_loop
  | Named_parameters
  | Get_arguments
  | Parameters
  | Train
  | Eval
  | Load string
  | Save string
  | Get_predictions 'a
  | Get_task

fun call ::
  "('t nn_Module \<Rightarrow> 't checkpoints \<Rightarrow> ('t nn_Module \<times> 't checkpoints) \<times> (exn + string)) \<Rightarrow>
   ('t, 'a) wrapper_call \<Rightarrow> 't ModelWrapper \<times> 't checkpoints \<Rightarrow> 't ModelWrapper \<times> 't checkpoints" where
  "call optimise (Assign_model m) (self, fs) = (self\<lparr>self_model := m\<rparr>, fs)"
| "call optimise (Put_on_device n) (self, fs) = (fst (ModelWrapper_put_on_device self n), fs)"
| "call optimise Str (self, fs) = (self, fs)"
| "call optimise Train_loop (self, fs) = fst (ModelWrapper_train_loop optimise self fs)"
| "call optimise Named_parameters (self, fs) = (self, fs)"
| "call optimise Get_arguments (self, fs) = (self, fs)"
| "call optimise Parameters (self, fs) = (self, fs)"
| "call optimise Train (self, fs) = (fst (ModelWrapper_train self), fs)"
| "call optimise Eval (self, fs) = (fst (ModelWrapper_eval self), fs)"
| "call optimise (Load filename) (self, fs) = (fst (ModelWrapper_load self filename fs), fs)"
| "call optimise (Save filename) (self, fs) = (self, fst (ModelWrapper_save self filename fs))"
| "call optimise (Get_predictions a) (self, fs) = (self, fs)"
| "call optimise Get_task (self, fs) = (self, fs)"

fun calls ::
  "('t nn_Module \<Rightarrow> 't checkpoints \<Rightarrow> ('t nn_Module \<times> 't checkpoints) \<times> (exn + string)) \<Rightarrow>
   ('t, 'a) wrapper_call list \<Rightarrow> 't ModelWrapper \<times> 't checkpoints \<Rightarrow> 't ModelWrapper \<times> 't checkpoints" where
  "calls optimise [] s = s"
| "calls optimise (c # cs) s = calls optimise cs (call optimise c s)"

text \<open>
  A wrapper is attached when a network has been assigned and \<open>_put_on_device\<close> has run
  once: it holds the network itself, or the container around it when parallelized.
\<close>

fun is_net :: "'t nn_Module \<Rightarrow> bool" where
  "is_net (Net ps tr) = True"
| "is_net NoneModule = False"
| "is_net (DataParallel m) = False"

definition underlying :: "'t ModelWrapper \<Rightarrow> 't nn_Module" where
  "underlying self =
     (if self_parallelized self
      then (case self_model self of DataParallel m \<Rightarrow> m | _ \<Rightarrow> NoneModule)
      else self_model self)"

definition attached :: "'t ModelWrapper \<Rightarrow> bool" where
  "attached self =
     (if self_parallelized self
      then (case self_model self of DataParallel m \<Rightarrow> is_net m | _ \<Rightarrow> False)
      else is_net (self_model self))"


subsection \<open>Two wrappers, as a concrete wrapper's constructor leaves them\<close>

definition example_args :: ModelArgs where
  "example_args = \<lparr>args_get_task = ACTION_GENERATOR,
     get_decoder_args = \<lparr>pretrained_plan_predictor = False,
       pretrained_plan_predictor_filepath = ''save/plan/model.pt'', end_to_end = False\<rparr>\<rparr>"

definition parallel_wrapper :: "int ModelWrapper" where
  "parallel_wrapper =
     fst (ModelWrapper_put_on_device
       ((ModelWrapper_init example_args None 2)\<lparr>self_model := Net [(''w'', 3), (''b'', 4)] True\<rparr>) 2)"

definition single_wrapper :: "int ModelWrapper" where
  "single_wrapper =
     fst (ModelWrapper_put_on_device
       ((ModelWrapper_init example_args None 1)\<lparr>self_model := Net [(''w'', 0), (''b'', 0)] False\<rparr>) 1)"


section \<open>The training driver\<close>

subsection \<open>Strings\<close>

text \<open>\<open>str.split(sep)\<close> for a separator of one character, \<open>sep.join\<close>, and \<open>str\<close> of a length.\<close>

fun str_split :: "char \<Rightarrow> string \<Rightarrow> string list" where
  "str_split sep [] = [[]]"
| "str_split sep (c # cs) =
     (if c = sep then [] # str_split sep cs
      else (case str_split sep cs of
              [] \<Rightarrow> [[c]]
            | w # ws \<Rightarrow> (c # w) # ws))"

fun str_join :: "string \<Rightarrow> string list \<Rightarrow> string" where
  "str_join sep [] = []"
| "str_join sep [w] = w"
| "str_join sep (w # v # ws) = w @ sep @ str_join sep (v # ws)"

fun str_nat :: "nat \<Rightarrow> string" where
  "str_nat n =
     (if n < 10 then [''0123456789'' ! n]
      else str_nat (n div 10) @ [''0123456789'' ! (n mod 10)])"

text \<open>Lines 71-72: \<open>'/'.join(filepath.split('/')[:-1])\<close>.\<close>

definition vocab_file :: "string \<Rightarrow> string" where
  "vocab_file filepath = str_join ''/'' (butlast (str_split (CHR ''/'') filepath))"


subsection \<open>Names\<close>

text \<open>
  The names bound in the module when \<open>train\<close> runs, in the order of the file:
  the imports of lines 2-16, those of lines 18-22 under \<open>if TYPE_CHECKING:\<close>, and the
  definitions of lines 25 and 28. \<open>typing.TYPE_CHECKING\<close> is \<open>False\<close> in a running
  interpreter and \<open>True\<close> only for a static type checker. A name that \<open>train\<close> reads and
  does not assign is looked up in the module and then among the builtins;
  \<open>builtins\<close> lists those that \<open>train\<close> reads.
\<close>

definition module_globals :: "bool \<Rightarrow> string list" where
  "module_globals TYPE_CHECKING =
     [''annotations'', ''logging'', ''TYPE_CHECKING'', ''pycrayon'', ''program_args'',
      ''dataset_split'', ''game_dataset'', ''loading'', ''action_generator_metrics'',
      ''plan_metrics'', ''util'', ''action_generator_model_wrapper'', ''create_model_wrapper'']
     @ (if TYPE_CHECKING
        then [''List'', ''model_args'', ''training_args'', ''model_wrapper''] else [])
     @ [''SLACK_CHANNEL'', ''train'']"

definition builtins :: "string list" where
  "builtins = [''dict'', ''isinstance'', ''len'', ''list'', ''print'', ''str'']"

definition SLACK_CHANNEL :: string where
  "SLACK_CHANNEL = []"


subsection \<open>Effects\<close>

datatype DatasetSplit = TRAIN | DEV

text \<open>
  What the driver does to the world outside: each call of a collaborator, with the
  arguments that the driver computes, in the order of the calls.
\<close>

datatype event =
    Logging_info string
  | CrayonClient string
  | Create_experiment string
  | Send_slack_message string string string
  | Save_args string
  | Load_data DatasetSplit
  | Get_games DatasetSplit
  | GameDataset bool bool
  | Save_validation_split string
  | Load_vocabulary string
  | Get_instruction_vocabulary
  | Save_vocabulary string
  | Get_model_wrapper "string list" bool
  | Model_train_loop
  | Model_load string
  | Get_examples DatasetSplit
  | Plan_metric_results
  | Print string
  | Execution_accuracies

text \<open>
  The class of the wrapper that the factory returns: \<open>ActionGeneratorModelWrapper\<close> (or a
  class derived from it), or a class that is not, by its name.
\<close>

datatype wrapper_class = ActionGeneratorModelWrapper | OtherModelWrapper string

text \<open>
  The collaborators, all outside the source files. \<open>raises\<close> says which calls fail, and
  with what; the other fields are what the calls return when they do not. A metric is of
  any type \<open>'r\<close>, and \<open>format_2f\<close> is \<open>'{0:.2f}'.format\<close> on it.
\<close>

record ('t, 'r) collaborators =
  raises :: "event \<Rightarrow> exn option"
  dataset_len :: nat
  get_instruction_vocabulary :: "string list"
  load_vocabulary :: "string \<Rightarrow> string list"
  get_model_wrapper ::
    "ModelArgs \<Rightarrow> TrainingArgs \<Rightarrow> string list \<Rightarrow> bool \<Rightarrow> wrapper_class \<times> 't ModelWrapper"
  module_repr :: "'t nn_Module \<Rightarrow> string"
  train_loop_procedure ::
    "'t nn_Module \<Rightarrow> 't checkpoints \<Rightarrow> ('t nn_Module \<times> 't checkpoints) \<times> (exn + string)"
  plan_metric_results :: "'t ModelWrapper \<Rightarrow> string"
  execution_accuracies :: "'t ModelWrapper \<Rightarrow> (string \<times> 'r) list"
  format_2f :: "'r \<Rightarrow> string"

text \<open>
  A statement takes the checkpoint store and gives the events it caused, the store as it
  leaves it, and its value or the exception it raised.
\<close>

type_synonym ('t, 'a) io = "'t checkpoints \<Rightarrow> (event list \<times> 't checkpoints) \<times> (exn + 'a)"

definition returns :: "'a \<Rightarrow> ('t, 'a) io" where
  "returns x = (\<lambda>fs. (([], fs), Inr x))"

definition raise :: "exn \<Rightarrow> ('t, 'a) io" where
  "raise e = (\<lambda>fs. (([], fs), Inl e))"

definition emit :: "event \<Rightarrow> ('t, unit) io" where
  "emit ev = (\<lambda>fs. (([ev], fs), Inr ()))"

definition bind_io :: "('t, 'a) io \<Rightarrow> ('a \<Rightarrow> ('t, 'b) io) \<Rightarrow> ('t, 'b) io" where
  "bind_io m f =
     (\<lambda>fs. case m fs of
        ((es, fs'), Inl e) \<Rightarrow> ((es, fs'), Inl e)
      | ((es, fs'), Inr x) \<Rightarrow> (case f x fs' of ((es', fs''), r) \<Rightarrow> ((es @ es', fs''), r)))"

fun seq_io :: "('t, unit) io list \<Rightarrow> ('t, unit) io" where
  "seq_io [] = returns ()"
| "seq_io (m # ms) = bind_io m (\<lambda>_. seq_io ms)"

definition when_io :: "bool \<Rightarrow> ('t, unit) io \<Rightarrow> ('t, unit) io" where
  "when_io b m = (if b then m else returns ())"

text \<open>Reading global names, in the order of evaluation: the first that is not bound raises.\<close>

fun load_globals :: "bool \<Rightarrow> string list \<Rightarrow> ('t, unit) io" where
  "load_globals TYPE_CHECKING [] = returns ()"
| "load_globals TYPE_CHECKING (name # names) =
     (if name \<in> set (module_globals TYPE_CHECKING) \<or> name \<in> set builtins
      then load_globals TYPE_CHECKING names
      else raise (NameError name))"

text \<open>A call of a collaborator is an event, and it returns or raises as \<open>raises\<close> says.\<close>

definition collaborator :: "('t, 'r) collaborators \<Rightarrow> event \<Rightarrow> ('t, unit) io" where
  "collaborator env ev =
     (\<lambda>fs. (([ev], fs), case raises env ev of None \<Rightarrow> Inr () | Some e \<Rightarrow> Inl e))"

text \<open>A statement that calls a collaborator: the names are read, then the call is made.\<close>

definition external ::
  "bool \<Rightarrow> ('t, 'r) collaborators \<Rightarrow> string list \<Rightarrow> event \<Rightarrow> ('t, unit) io" where
  "external TYPE_CHECKING env names ev =
     bind_io (load_globals TYPE_CHECKING names) (\<lambda>_. collaborator env ev)"

definition logging_info :: "bool \<Rightarrow> string \<Rightarrow> ('t, unit) io" where
  "logging_info TYPE_CHECKING msg =
     bind_io (load_globals TYPE_CHECKING [''logging'']) (\<lambda>_. emit (Logging_info msg))"


subsection \<open>train\<close>

text \<open>Lines 35-67: the experiment, the saved arguments, the dataset and its validation split.\<close>

definition train_setup :: "bool \<Rightarrow> ('t, 'r) collaborators \<Rightarrow> ProgramArgs \<Rightarrow> ('t, unit) io" where
  "train_setup TYPE_CHECKING env args =
     (let training_arguments = get_training_args args in
      seq_io
       [external TYPE_CHECKING env [''pycrayon''] (CrayonClient ''localhost''),
        logging_info TYPE_CHECKING
          (''Starting experiment: '' @ get_experiment_name training_arguments),
        external TYPE_CHECKING env [] (Create_experiment (get_experiment_name training_arguments)),
        when_io (log_with_slack training_arguments)
          (external TYPE_CHECKING env [''util'', ''SLACK_CHANNEL'']
             (Send_slack_message (get_experiment_name training_arguments) ''Starting!''
                SLACK_CHANNEL)),
        external TYPE_CHECKING env [''program_args'']
          (Save_args (get_save_directory training_arguments)),
        external TYPE_CHECKING env [''loading'', ''dataset_split''] (Load_data TRAIN),
        external TYPE_CHECKING env [''loading'', ''dataset_split''] (Load_data DEV),
        external TYPE_CHECKING env [''game_dataset'', ''dataset_split''] (Get_games TRAIN),
        external TYPE_CHECKING env [''dataset_split''] (Get_games DEV),
        external TYPE_CHECKING env [''dict''] (GameDataset False True),
        logging_info TYPE_CHECKING (''Loaded '' @ str_nat (dataset_len env) @ '' games''),
        external TYPE_CHECKING env []
          (Save_validation_split (get_save_directory training_arguments))])"

text \<open>Lines 69-80: the vocabulary.\<close>

definition train_vocabulary ::
  "bool \<Rightarrow> ('t, 'r) collaborators \<Rightarrow> ProgramArgs \<Rightarrow> ('t, string list) io" where
  "train_vocabulary TYPE_CHECKING env args =
     (let training_arguments = get_training_args args;
          decoder = get_decoder_args (get_model_args args) in
      bind_io
        (if pretrained_plan_predictor decoder
         then bind_io (logging_info TYPE_CHECKING
                         (''Loading vocabulary from ''
                            @ vocab_file (pretrained_plan_predictor_filepath decoder))) (\<lambda>_.
              bind_io (external TYPE_CHECKING env [''loading'']
                         (Load_vocabulary
                            (vocab_file (pretrained_plan_predictor_filepath decoder)))) (\<lambda>_.
                returns (load_vocabulary env
                           (vocab_file (pretrained_plan_predictor_filepath decoder)))))
         else bind_io (external TYPE_CHECKING env [] Get_instruction_vocabulary) (\<lambda>_.
              bind_io (external TYPE_CHECKING env []
                         (Save_vocabulary (get_save_directory training_arguments))) (\<lambda>_.
                returns (get_instruction_vocabulary env))))
        (\<lambda>vocabulary.
           bind_io (logging_info TYPE_CHECKING
                      (''Vocabulary contains '' @ str_nat (length vocabulary) @ '' word types''))
             (\<lambda>_. returns vocabulary)))"

text \<open>
  Line 89: \<open>model.train_loop\<close>, the training loop of the wrapper's class, which changes the
  wrapper and the checkpoint store and returns the path of the best checkpoint. Line 94:
  \<open>model.load\<close>, the method of \<open>ModelWrapper\<close>.
\<close>

definition model_train_loop ::
  "('t, 'r) collaborators \<Rightarrow> 't ModelWrapper \<Rightarrow> ('t, 't ModelWrapper \<times> string) io" where
  "model_train_loop env model =
     (\<lambda>fs. case ModelWrapper_train_loop (train_loop_procedure env) model fs of
        ((model1, fs'), r) \<Rightarrow>
          (([Model_train_loop], fs'),
           case r of Inl e \<Rightarrow> Inl e | Inr best_epoch_filename \<Rightarrow> Inr (model1, best_epoch_filename)))"

definition model_load :: "'t ModelWrapper \<Rightarrow> string \<Rightarrow> ('t, 't ModelWrapper) io" where
  "model_load model filename =
     (\<lambda>fs. case ModelWrapper_load model filename fs of
        (model1, r) \<Rightarrow>
          (([Model_load filename], fs), case r of Inl e \<Rightarrow> Inl e | Inr u \<Rightarrow> Inr model1))"

text \<open>
  Lines 82-98: the wrapper from the factory, its training loop, the reload of the best
  checkpoint.
\<close>

definition train_model ::
  "bool \<Rightarrow> ('t, 'r) collaborators \<Rightarrow> ProgramArgs \<Rightarrow> string list \<Rightarrow>
   ('t, wrapper_class \<times> 't ModelWrapper) io" where
  "train_model TYPE_CHECKING env args vocabulary =
     (let training_arguments = get_training_args args;
          model_arguments = get_model_args args;
          load_pretrained = end_to_end (get_decoder_args model_arguments);
          made = get_model_wrapper env model_arguments training_arguments vocabulary
                   load_pretrained
      in
      bind_io (external TYPE_CHECKING env [''create_model_wrapper'']
                 (Get_model_wrapper vocabulary load_pretrained)) (\<lambda>_.
      bind_io (logging_info TYPE_CHECKING ''Created model:'') (\<lambda>_.
      bind_io (logging_info TYPE_CHECKING (ModelWrapper_str (module_repr env) (snd made))) (\<lambda>_.
      bind_io (model_train_loop env (snd made)) (\<lambda>trained.
      bind_io (model_load (fst trained) (snd trained)) (\<lambda>model.
      bind_io (when_io (log_with_slack training_arguments)
                 (external TYPE_CHECKING env [''util'', ''SLACK_CHANNEL'']
                    (Send_slack_message (get_experiment_name training_arguments)
                       (''Model finished training! Best epoch filename: '' @ snd trained)
                       SLACK_CHANNEL))) (\<lambda>_.
        returns (fst made, model))))))))"

text \<open>Lines 119-124: the loop over the items of the results.\<close>

fun report_results ::
  "bool \<Rightarrow> ('t, 'r) collaborators \<Rightarrow> TrainingArgs \<Rightarrow> (string \<times> 'r) list \<Rightarrow> ('t, unit) io" where
  "report_results TYPE_CHECKING env training_arguments [] = returns ()"
| "report_results TYPE_CHECKING env training_arguments ((metric_name, result) # items) =
     seq_io
      [when_io (log_with_slack training_arguments)
         (external TYPE_CHECKING env [''util'', ''str'', ''SLACK_CHANNEL'']
            (Send_slack_message (get_experiment_name training_arguments)
               (metric_name @ '' after training: '' @ format_2f env result)
               SLACK_CHANNEL)),
       bind_io (load_globals TYPE_CHECKING [''logging'', ''str'']) (\<lambda>_.
         emit (Logging_info (metric_name @ '' after training: '' @ format_2f env result))),
       report_results TYPE_CHECKING env training_arguments items]"

text \<open>
  Lines 100-124: the evaluation after training. Line 100 reads \<open>model_args\<close>; in lines
  106-109 \<open>util\<close> is read, then \<open>final_goal_acc\<close> in the message, which \<open>train\<close> never
  assigns, and \<open>SLACK_CHANNEL\<close> last.
\<close>

definition train_evaluation ::
  "bool \<Rightarrow> ('t, 'r) collaborators \<Rightarrow> ProgramArgs \<Rightarrow> wrapper_class \<times> 't ModelWrapper \<Rightarrow>
   ('t, unit) io" where
  "train_evaluation TYPE_CHECKING env args m =
     (let training_arguments = get_training_args args;
          task = args_get_task (get_model_args args);
          model = snd m in
      bind_io (load_globals TYPE_CHECKING [''model_args'']) (\<lambda>_.
      if task = PLAN_PREDICTOR
      then seq_io
            [logging_info TYPE_CHECKING ''Running on dev after training for plan prediction...'',
             external TYPE_CHECKING env [''plan_metrics'', ''dataset_split''] (Get_examples DEV),
             external TYPE_CHECKING env [] Plan_metric_results,
             external TYPE_CHECKING env [''print''] (Print (plan_metric_results env model)),
             when_io (log_with_slack training_arguments)
               (bind_io (load_globals TYPE_CHECKING [''util'', ''final_goal_acc'']) (\<lambda>_.
                  external TYPE_CHECKING env [''SLACK_CHANNEL'']
                    (Send_slack_message (get_experiment_name training_arguments)
                       ''Final goal-prediction accuracy: '' SLACK_CHANNEL)))]
      else
      bind_io (load_globals TYPE_CHECKING [''model_args'']) (\<lambda>_.
      if task = ACTION_GENERATOR
      then seq_io
            [logging_info TYPE_CHECKING
               ''Running on dev after training for action prediction...'',
             bind_io (load_globals TYPE_CHECKING
                        [''isinstance'', ''action_generator_model_wrapper'']) (\<lambda>_.
               if fst m = ActionGeneratorModelWrapper then returns ()
               else raise AssertionError),
             external TYPE_CHECKING env
               [''action_generator_metrics'', ''list'', ''dataset_split''] (Get_examples DEV),
             external TYPE_CHECKING env [] Execution_accuracies,
             report_results TYPE_CHECKING env training_arguments
               (execution_accuracies env model)]
      else returns ())))"

definition train :: "bool \<Rightarrow> ('t, 'r) collaborators \<Rightarrow> ProgramArgs \<Rightarrow> ('t, unit) io" where
  "train TYPE_CHECKING env args =
     bind_io (train_setup TYPE_CHECKING env args) (\<lambda>_.
     bind_io (train_vocabulary TYPE_CHECKING env args) (\<lambda>vocabulary.
     bind_io (train_model TYPE_CHECKING env args vocabulary) (\<lambda>m.
       train_evaluation TYPE_CHECKING env args m)))"


subsection \<open>What a run shows\<close>

definition events :: "('t, 'a) io \<Rightarrow> 't checkpoints \<Rightarrow> event list" where
  "events m fs = fst (fst (m fs))"

definition outcome :: "('t, 'a) io \<Rightarrow> 't checkpoints \<Rightarrow> exn + 'a" where
  "outcome m fs = snd (m fs)"


text \<open>The calls of the evaluation after training: lines 102 and 114.\<close>

fun evaluation_event :: "event \<Rightarrow> bool" where
  "evaluation_event Plan_metric_results = True"
| "evaluation_event Execution_accuracies = True"
| "evaluation_event ev = False"


subsection \<open>A run to look at\<close>

text \<open>
  Collaborators that never fail, with a factory that builds a wrapper of the class of the
  task on one device, and a program for a task, with or without Slack, with or without a
  pretrained plan predictor.
\<close>

definition quiet :: "(int, int) collaborators" where
  "quiet = \<lparr>raises = (\<lambda>ev. None),
     dataset_len = 12,
     get_instruction_vocabulary = [''go'', ''left''],
     load_vocabulary = (\<lambda>d. [''turn'', ''right'', ''card'']),
     get_model_wrapper = (\<lambda>model_arguments training_arguments vocabulary load_pretrained.
        (if args_get_task model_arguments = ACTION_GENERATOR then ActionGeneratorModelWrapper
         else OtherModelWrapper ''PlanPredictorModelWrapper'',
         fst (ModelWrapper_put_on_device
           ((ModelWrapper_init model_arguments None 1)
              \<lparr>self_model := Net [(''embeddings'', int (length vocabulary))] False\<rparr>) 1))),
     module_repr = (\<lambda>m. ''Net()''),
     train_loop_procedure = (\<lambda>m fs.
        ((set_training True m, fs(''epoch3.pt'' \<mapsto> [(''embeddings'', 7)])), Inr ''epoch3.pt'')),
     plan_metric_results = (\<lambda>model. ''{}''),
     execution_accuracies = (\<lambda>model. [(''accuracy'', 50)]),
     format_2f = (\<lambda>r. ''50.00'')\<rparr>"

definition program :: "Task \<Rightarrow> bool \<Rightarrow> bool \<Rightarrow> ProgramArgs" where
  "program task slack pretrained =
     \<lparr>get_training_args = \<lparr>get_experiment_name = ''exp'', log_with_slack = slack,
         get_save_directory = ''out''\<rparr>,
       get_model_args = \<lparr>args_get_task = task,
         get_decoder_args = \<lparr>pretrained_plan_predictor = pretrained,
           pretrained_plan_predictor_filepath = ''save/plan/model.pt'',
           end_to_end = False\<rparr>\<rparr>\<rparr>"

text \<open>The same collaborators, with a factory that returns a wrapper of another class.\<close>

definition misbuilt :: "(int, int) collaborators" where
  "misbuilt = quiet\<lparr>get_model_wrapper :=
     (\<lambda>model_arguments training_arguments vocabulary load_pretrained.
        (OtherModelWrapper ''PlanPredictorModelWrapper'',
         snd (get_model_wrapper quiet model_arguments training_arguments vocabulary
                load_pretrained)))\<rparr>"








text \<open>A statement is silent for a kind of event when no run of it causes one.\<close>

definition silent :: "(event \<Rightarrow> bool) \<Rightarrow> ('t, 'a) io \<Rightarrow> bool" where
  "silent P m = (\<forall>fs. filter P (events m fs) = [])"


section \<open>Properties of the wrapper\<close>

lemma call_keeps_fields:
  "self_parallelized (fst (call optimise c s)) = self_parallelized (fst s) \<and>
   self_task (fst (call optimise c s)) = self_task (fst s) \<and>
   self_args (fst (call optimise c s)) = self_args (fst s)"
proof (cases s)
  case (Pair self fs)
  then show ?thesis
    by (cases c)
       (auto simp: ModelWrapper_put_on_device_def ModelWrapper_train_loop_def
          ModelWrapper_train_def ModelWrapper_eval_def ModelWrapper_load_def Let_def
          split: sum.splits list.splits prod.splits)
qed

lemma calls_keep_fields:
  "self_parallelized (fst (calls optimise cs s)) = self_parallelized (fst s) \<and>
   self_task (fst (calls optimise cs s)) = self_task (fst s) \<and>
   self_args (fst (calls optimise cs s)) = self_args (fst s)"
  by (induction cs arbitrary: s) (simp_all add: call_keeps_fields)

text \<open>
  C4. The parallelization flag is decided by \<open>__init__\<close>, true exactly when more than one
  device is counted, and whatever calls are then made on the wrapper, with whatever device
  counts, returning or raising, the flag keeps that value.
\<close>

theorem parallelized_set_once:
  "self_parallelized (ModelWrapper_init model_arguments logger device_count :: 't ModelWrapper)
     = (device_count > 1) \<and>
   self_parallelized
     (fst (calls optimise cs (ModelWrapper_init model_arguments logger device_count, fs)))
     = (device_count > 1)"
  by (simp add: calls_keep_fields ModelWrapper_init_def Let_def)

text \<open>
  C8. \<open>get_task\<close> returns the task of the model arguments given to \<open>__init__\<close>, and still
  does after any calls on the wrapper (train, eval, save, load, the training loop,
  predictions and the others), returning or raising.
\<close>

theorem get_task_unchanged:
  "get_task (ModelWrapper_init model_arguments logger device_count :: 't ModelWrapper)
     = args_get_task model_arguments \<and>
   get_task (fst (calls optimise cs (ModelWrapper_init model_arguments logger device_count, fs)))
     = args_get_task model_arguments"
  by (simp add: get_task_def calls_keep_fields ModelWrapper_init_def Let_def)

lemma is_net_iff: "is_net m = (\<exists>ps tr. m = Net ps tr)"
  by (cases m) auto

lemma attached_cases:
  "attached self \<Longrightarrow>
   \<exists>ps tr. underlying self = Net ps tr \<and>
     self_model self = (if self_parallelized self then DataParallel (Net ps tr) else Net ps tr)"
  by (auto simp: attached_def underlying_def is_net_iff split: if_splits nn_Module.splits)

lemma attached_after_construction:
  "ps \<noteq> [] \<Longrightarrow>
   ModelWrapper_put_on_device
     ((ModelWrapper_init model_arguments logger device_count)\<lparr>self_model := Net ps tr\<rparr>) n = (self, r)
   \<Longrightarrow> r = Inr () \<and> attached self \<and> underlying self = Net ps tr"
  by (cases ps)
     (auto simp: ModelWrapper_put_on_device_def ModelWrapper_init_def attached_def Let_def
        module_parameters_def underlying_def split: if_splits)

text \<open>
  C5. On an attached wrapper, \<open>named_parameters\<close> and \<open>parameters\<close> give the parameters of
  the network itself, by name and as tensors, whether the wrapper holds the network or the
  container around it. \<open>named_parameters\<close> goes through \<open>.module\<close>; \<open>parameters\<close> asks the
  container, which lists the tensors of its child.
\<close>

theorem parameters_of_underlying:
  "attached self \<Longrightarrow>
   ModelWrapper_named_parameters self = Inr (registered_parameters (underlying self)) \<and>
   ModelWrapper_parameters self = Inr (map snd (registered_parameters (underlying self)))"
  by (drule attached_cases)
     (auto simp: ModelWrapper_named_parameters_def ModelWrapper_parameters_def
        module_named_parameters_def module_parameters_def comp_def split_def)

lemma parallel_wrapper_eq:
  "parallel_wrapper = \<lparr>self_args = example_args, self_task = ACTION_GENERATOR,
     self_parallelized = True, self_model = DataParallel (Net [(''w'', 3), (''b'', 4)] True),
     self_logger = None\<rparr>"
  by (simp add: parallel_wrapper_def ModelWrapper_put_on_device_def ModelWrapper_init_def
        module_parameters_def example_args_def Let_def)

lemma single_wrapper_eq:
  "single_wrapper = \<lparr>self_args = example_args, self_task = ACTION_GENERATOR,
     self_parallelized = False, self_model = Net [(''w'', 0), (''b'', 0)] False,
     self_logger = None\<rparr>"
  by (simp add: single_wrapper_def ModelWrapper_put_on_device_def ModelWrapper_init_def
        module_parameters_def example_args_def Let_def)

theorem parameters_of_underlying_witness:
  "attached parallel_wrapper \<and>
   ModelWrapper_named_parameters parallel_wrapper = Inr [(''w'', 3), (''b'', 4)] \<and>
   ModelWrapper_parameters parallel_wrapper = Inr [3, 4]"
proof -
  have a: "attached parallel_wrapper"
    by (simp add: parallel_wrapper_eq attached_def)
  show ?thesis
    using a parameters_of_underlying [OF a] by (simp add: parallel_wrapper_eq underlying_def)
qed

text \<open>
  C7. On an attached wrapper, \<open>get_predictions\<close> is the network's own \<open>get_predictions\<close> on
  the same arguments, its result unchanged; when the wrapper is parallelized the call does
  not go to the container, which has no such method.
\<close>

theorem get_predictions_forwards:
  "attached self \<Longrightarrow> underlying self = Net ps tr \<Longrightarrow>
   ModelWrapper_get_predictions gp self a = gp ps tr a \<and>
   (self_parallelized self \<longrightarrow>
      module_get_predictions gp (self_model self) a = Inl (AttributeError ''get_predictions''))"
  by (auto simp: attached_def underlying_def ModelWrapper_get_predictions_def
        split: if_splits nn_Module.splits)

theorem get_predictions_forwards_witness:
  "attached parallel_wrapper \<and> underlying parallel_wrapper = Net [(''w'', 3), (''b'', 4)] True \<and>
   self_parallelized parallel_wrapper \<and>
   ModelWrapper_get_predictions (\<lambda>ps tr a. Inr (map snd ps, tr, a)) parallel_wrapper (7::nat)
     = Inr ([3, 4], True, 7) \<and>
   module_get_predictions (\<lambda>ps tr a. Inr (map snd ps, tr, a)) (self_model parallel_wrapper) (7::nat)
     = (Inl (AttributeError ''get_predictions'') :: exn + (int list \<times> bool \<times> nat))"
proof -
  have a: "attached parallel_wrapper"
    by (simp add: parallel_wrapper_eq attached_def)
  have u: "underlying parallel_wrapper = Net [(''w'', 3), (''b'', 4)] True"
    by (simp add: parallel_wrapper_eq underlying_def)
  have p: "self_parallelized parallel_wrapper"
    by (simp add: parallel_wrapper_eq)
  show ?thesis
    using a u p get_predictions_forwards [OF a u, of "\<lambda>ps tr a. Inr (map snd ps, tr, a)" "7::nat"]
    by simp
qed

text \<open>
  C3. \<open>save\<close> on an attached wrapper writes the parameters of the network itself at the
  path, under their own names, parallelized or not; \<open>load\<close> of that path on any attached
  wrapper, parallelized or not, returns and leaves it attached with those parameters.
\<close>

theorem save_load_round_trip:
  "attached self \<Longrightarrow> attached other \<Longrightarrow>
   (case ModelWrapper_save self filename fs of (fs', r) \<Rightarrow>
      r = Inr () \<and> fs' = fs(filename \<mapsto> registered_parameters (underlying self)) \<and>
      (case ModelWrapper_load other filename fs' of (other', r') \<Rightarrow>
         r' = Inr () \<and> attached other' \<and>
         self_parallelized other' = self_parallelized other \<and>
         registered_parameters (underlying other') = registered_parameters (underlying self) \<and>
         ModelWrapper_named_parameters other' = ModelWrapper_named_parameters self))"
  apply (drule attached_cases)+
  apply (auto simp: ModelWrapper_save_def ModelWrapper_load_def attached_def underlying_def
        ModelWrapper_named_parameters_def module_named_parameters_def split: prod.splits if_splits)
  done

theorem save_load_round_trip_witness:
  "attached parallel_wrapper \<and> attached single_wrapper \<and>
   (case ModelWrapper_save parallel_wrapper ''best.pt'' Map.empty of (fs', r) \<Rightarrow>
      r = Inr () \<and> fs' = [''best.pt'' \<mapsto> [(''w'', 3), (''b'', 4)]] \<and>
      (case ModelWrapper_load single_wrapper ''best.pt'' fs' of (other', r') \<Rightarrow>
         r' = Inr () \<and> \<not> self_parallelized other' \<and>
         ModelWrapper_named_parameters other' = Inr [(''w'', 3), (''b'', 4)]))"
proof -
  have a: "attached parallel_wrapper"
    by (simp add: parallel_wrapper_eq attached_def)
  have b: "attached single_wrapper"
    by (simp add: single_wrapper_eq attached_def)
  have u: "registered_parameters (underlying parallel_wrapper) = [(''w'', 3), (''b'', 4)]"
    by (simp add: parallel_wrapper_eq underlying_def)
  have n: "ModelWrapper_named_parameters parallel_wrapper = Inr [(''w'', 3), (''b'', 4)]"
    by (simp add: parallel_wrapper_eq ModelWrapper_named_parameters_def
          module_named_parameters_def)
  have s: "\<not> self_parallelized single_wrapper"
    by (simp add: single_wrapper_eq)
  show ?thesis
    using a b save_load_round_trip [OF a b, where filename = "''best.pt''" and fs = Map.empty]
    by (simp add: u n s split: prod.splits)
qed


section \<open>Properties of the driver\<close>

subsection \<open>The directory of the vocabulary\<close>

lemma str_split_not_Nil: "str_split sep s \<noteq> []"
  by (induction s) (auto split: list.splits)

lemma str_split_no_sep: "sep \<notin> set s \<Longrightarrow> str_split sep s = [s]"
  by (induction s) auto

lemma str_split_append: "str_split sep (d @ sep # b) = str_split sep d @ str_split sep b"
proof (induction d)
  case Nil
  then show ?case by simp
next
  case (Cons c d)
  then show ?case
    by (cases "str_split sep d") (auto simp: str_split_not_Nil)
qed

lemma str_join_Cons: "ws \<noteq> [] \<Longrightarrow> str_join sep (w # ws) = w @ sep @ str_join sep ws"
  by (cases ws) auto

lemma str_join_split: "str_join [sep] (str_split sep s) = s"
proof (induction s)
  case Nil
  then show ?case by simp
next
  case (Cons c s)
  show ?case
  proof (cases "str_split sep s")
    case Nil
    then show ?thesis using str_split_not_Nil [of sep s] by simp
  next
    case (Cons w ws)
    with Cons.IH show ?thesis
      by (cases ws) (auto simp: str_join_Cons str_split_not_Nil)
  qed
qed






text \<open>
  C10. The directory that the vocabulary is loaded from is the filepath up to its last
  \<open>/\<close>, without it; for a filepath without \<open>/\<close> it is the empty string.
\<close>

theorem vocab_file_before_last_slash:
  "CHR ''/'' \<notin> set base \<Longrightarrow>
   vocab_file (dir @ ''/'' @ base) = dir \<and> vocab_file base = ''''"
  by (simp add: vocab_file_def str_split_append str_split_no_sep str_join_split)

theorem vocab_file_before_last_slash_witness:
  "CHR ''/'' \<notin> set ''model.pt'' \<and>
   vocab_file (''save/plan'' @ ''/'' @ ''model.pt'') = ''save/plan'' \<and>
   vocab_file ''model.pt'' = ''''"
proof -
  have h: "CHR ''/'' \<notin> set ''model.pt''" by simp
  show ?thesis
    using h vocab_file_before_last_slash [OF h, of "''save/plan''"] by simp
qed

subsection \<open>Rules for runs\<close>

lemma events_simps [simp]:
  "events (returns x) fs = []"
  "events (raise e) fs = []"
  "events (emit ev) fs = [ev]"
  by (simp_all add: events_def returns_def raise_def emit_def)

lemma outcome_simps [simp]:
  "outcome (returns x) fs = Inr x"
  "outcome (raise e) fs = Inl e"
  "outcome (emit ev) fs = Inr ()"
  by (simp_all add: outcome_def returns_def raise_def emit_def)

lemma events_bind:
  "events (bind_io m f) fs =
     events m fs @ (case m fs of (s, Inl e) \<Rightarrow> [] | (s, Inr x) \<Rightarrow> events (f x) (snd s))"
  by (auto simp: events_def bind_io_def split: prod.splits sum.splits)

lemma outcome_bind:
  "outcome (bind_io m f) fs =
     (case m fs of (s, Inl e) \<Rightarrow> Inl e | (s, Inr x) \<Rightarrow> outcome (f x) (snd s))"
  by (auto simp: outcome_def bind_io_def split: prod.splits sum.splits)

lemma silent_basic [simp]:
  "silent P (returns x)" "silent P (raise e)" "silent P (emit ev) = (\<not> P ev)"
  by (simp_all add: silent_def)

lemma silent_bind: "silent P m \<Longrightarrow> (\<And>x. silent P (f x)) \<Longrightarrow> silent P (bind_io m f)"
  by (auto simp: silent_def events_bind split: prod.splits sum.splits)

lemma silent_seq: "(\<And>m. m \<in> set ms \<Longrightarrow> silent P m) \<Longrightarrow> silent P (seq_io ms)"
  by (induction ms) (auto intro: silent_bind)

lemma silent_when: "silent P m \<Longrightarrow> silent P (when_io b m)"
  by (simp add: when_io_def)

lemma silent_load_globals: "silent P (load_globals tc names)"
  by (induction names) auto

lemma silent_collaborator: "\<not> P ev \<Longrightarrow> silent P (collaborator env ev)"
  by (simp add: silent_def events_def collaborator_def)

lemma silent_external: "\<not> P ev \<Longrightarrow> silent P (external tc env names ev)"
  by (simp add: external_def silent_bind silent_load_globals silent_collaborator)

lemma silent_logging_info: "\<not> P (Logging_info msg) \<Longrightarrow> silent P (logging_info tc msg)"
  by (auto simp: logging_info_def intro!: silent_bind silent_load_globals)


lemma silent_seq_all: "list_all (silent P) ms \<Longrightarrow> silent P (seq_io ms)"
  by (rule silent_seq) (simp add: list_all_iff)


subsection \<open>The vocabulary\<close>

lemma bound_names [simp]:
  "''pycrayon'' \<in> set (module_globals tc)"
  "''logging'' \<in> set (module_globals tc)"
  "''util'' \<in> set (module_globals tc)"
  "''SLACK_CHANNEL'' \<in> set (module_globals tc)"
  "''program_args'' \<in> set (module_globals tc)"
  "''loading'' \<in> set (module_globals tc)"
  "''dataset_split'' \<in> set (module_globals tc)"
  "''game_dataset'' \<in> set (module_globals tc)"
  "''create_model_wrapper'' \<in> set (module_globals tc)"
  "''plan_metrics'' \<in> set (module_globals tc)"
  "''action_generator_metrics'' \<in> set (module_globals tc)"
  "''action_generator_model_wrapper'' \<in> set (module_globals tc)"
  "''dict'' \<in> set builtins"
  "''print'' \<in> set builtins"
  "''isinstance'' \<in> set builtins"
  "''list'' \<in> set builtins"
  "''str'' \<in> set builtins"
  by (simp_all add: module_globals_def builtins_def)

lemma unbound_names [simp]:
  "''model_args'' \<in> set (module_globals tc) \<longleftrightarrow> tc"
  "''model_args'' \<notin> set builtins"
  "''final_goal_acc'' \<notin> set (module_globals tc)"
  "''final_goal_acc'' \<notin> set builtins"
  by (simp_all add: module_globals_def builtins_def)

lemma bind_returns [simp]: "bind_io (returns x) f = f x"
  by (auto simp: bind_io_def returns_def split: prod.splits)

lemma bind_raise [simp]: "bind_io (raise e) f = raise e"
  by (auto simp: bind_io_def raise_def)

lemmas io_defs = returns_def raise_def emit_def collaborator_def bind_io_def when_io_def
  external_def logging_info_def

lemma filter_events_bind:
  "filter P (events (bind_io m f) fs) =
     filter P (events m fs) @
     (case outcome m fs of Inl e \<Rightarrow> [] | Inr x \<Rightarrow> filter P (events (f x) (snd (fst (m fs)))))"
  by (auto simp: events_def outcome_def bind_io_def split: prod.splits sum.splits)





lemma silent_model_train_loop:
  "\<not> P Model_train_loop \<Longrightarrow> silent P (model_train_loop env model)"
  by (simp add: silent_def events_def model_train_loop_def split: prod.splits)

lemma silent_model_load: "\<not> P (Model_load filename) \<Longrightarrow> silent P (model_load model filename)"
  by (simp add: silent_def events_def model_load_def split: prod.splits)



lemma silent_report_results:
  "(\<And>u m c. \<not> P (Send_slack_message u m c)) \<Longrightarrow> (\<And>m. \<not> P (Logging_info m)) \<Longrightarrow>
   silent P (report_results tc env ta items)"
proof (induction items)
  case Nil
  show ?case by simp
next
  case (Cons item items)
  obtain metric_name result where item: "item = (metric_name, result)"
    by (cases item)
  show ?case
    unfolding item report_results.simps
    by (rule silent_seq_all)
       (simp add: Cons silent_when silent_external silent_bind silent_load_globals)
qed





subsection \<open>The evaluation after training\<close>

lemmas run_defs = train_def train_setup_def train_vocabulary_def train_model_def
  train_evaluation_def model_train_loop_def model_load_def io_defs Let_def
  ModelWrapper_train_loop_def ModelWrapper_load_def ModelWrapper_put_on_device_def
  ModelWrapper_init_def ModelWrapper_str_def module_parameters_def
  events_def outcome_def vocab_file_def SLACK_CHANNEL_def

lemma train_evaluation_at_runtime:
  "train_evaluation False env args m = raise (NameError ''model_args'')"
  by (simp add: train_evaluation_def Let_def)

lemma outcome_bind_raises:
  assumes "\<And>x fs'. isl (outcome (f x) fs')"
  shows "isl (outcome (bind_io m f) fs)"
proof (cases "m fs")
  case (Pair s r)
  show ?thesis
  proof (cases r)
    case (Inl e)
    with Pair show ?thesis
      by (cases s) (simp add: outcome_def bind_io_def)
  next
    case (Inr x)
    with Pair assms [of x "snd s"] show ?thesis
      by (cases s) (auto simp: outcome_def bind_io_def split: prod.splits)
  qed
qed

lemma train_never_returns_at_runtime: "isl (outcome (train False env args) fs)"
  unfolding train_def
  by (intro outcome_bind_raises) (simp add: train_evaluation_at_runtime)

lemma silent_evaluation_train_setup: "silent evaluation_event (train_setup tc env args)"
  unfolding train_setup_def Let_def
  by (rule silent_seq_all) (simp add: silent_external silent_logging_info silent_when)

lemma silent_evaluation_train_vocabulary:
  "silent evaluation_event (train_vocabulary tc env args)"
  unfolding train_vocabulary_def Let_def
  by (intro silent_bind silent_logging_info silent_external) (simp_all add: silent_bind
        silent_logging_info silent_external)

lemma silent_evaluation_train_model:
  "silent evaluation_event (train_model tc env args v)"
  unfolding train_model_def Let_def
  by (intro silent_bind silent_logging_info silent_model_train_loop silent_model_load
        silent_when silent_external) simp_all

lemma no_evaluation_at_runtime: "silent evaluation_event (train False env args)"
  unfolding train_def
  by (intro silent_bind silent_evaluation_train_setup silent_evaluation_train_vocabulary
        silent_evaluation_train_model)
     (simp add: train_evaluation_at_runtime)

text \<open>
  C2. A run for the task \<open>PLAN_PREDICTOR\<close> in which no collaborator fails, in a running
  interpreter: it trains and reloads the best checkpoint, then line 100 reads
  \<open>model_args\<close>, which is bound only for a type checker, and the run ends with a
  \<open>NameError\<close>; \<open>plan_metric_results\<close> is not called. (By \<open>no_evaluation_at_runtime\<close> and
  \<open>train_never_returns_at_runtime\<close> this is so for every task and every collaborator;
  \<open>branching_when_names_bound\<close> is the branching on the task, with the name bound.)
\<close>

theorem plan_predictor_run_stops_before_evaluation:
  "train False quiet (program PLAN_PREDICTOR False False) Map.empty =
     (([CrayonClient ''localhost'', Logging_info ''Starting experiment: exp'',
        Create_experiment ''exp'', Save_args ''out'', Load_data TRAIN, Load_data DEV,
        Get_games TRAIN, Get_games DEV, GameDataset False True,
        Logging_info ''Loaded 12 games'', Save_validation_split ''out'',
        Get_instruction_vocabulary, Save_vocabulary ''out'',
        Logging_info ''Vocabulary contains 2 word types'',
        Get_model_wrapper [''go'', ''left''] False,
        Logging_info ''Created model:'', Logging_info ''Net()'',
        Model_train_loop, Model_load ''epoch3.pt''],
       [''epoch3.pt'' \<mapsto> [(''embeddings'', 7)]]),
      Inl (NameError ''model_args''))"
  by (simp add: run_defs quiet_def program_def)

lemma plan_predictor_with_slack_never_returns:
  assumes "args_get_task (get_model_args args) = PLAN_PREDICTOR"
    and "log_with_slack (get_training_args args)"
  shows "isl (outcome (train tc env args) fs)"
proof -
  have "isl (outcome (train_evaluation tc env args m) fs')" for m fs'
    using assms
    by (cases tc)
       (simp_all add: train_evaluation_def Let_def outcome_def io_defs split: option.splits)
  then show ?thesis
    unfolding train_def by (intro outcome_bind_raises)
qed

text \<open>
  C6. A run for the task \<open>PLAN_PREDICTOR\<close> with Slack logging in which no collaborator
  fails: in a running interpreter it ends at line 100 with the \<open>NameError\<close> for
  \<open>model_args\<close>; with that name bound it computes the plan metrics and ends in lines
  106-109 with the \<open>NameError\<close> for \<open>final_goal_acc\<close>, and the Slack messages it has sent
  are the two before the evaluation: the final accuracy is not reported.
\<close>

theorem final_accuracy_never_reported:
  "outcome (train False quiet (program PLAN_PREDICTOR True False)) Map.empty
     = Inl (NameError ''model_args'') \<and>
   outcome (train True quiet (program PLAN_PREDICTOR True False)) Map.empty
     = Inl (NameError ''final_goal_acc'') \<and>
   filter (\<lambda>ev. case ev of Send_slack_message u m c \<Rightarrow> True | _ \<Rightarrow> False)
     (events (train True quiet (program PLAN_PREDICTOR True False)) Map.empty)
     = [Send_slack_message ''exp'' ''Starting!'' [],
        Send_slack_message ''exp''
          ''Model finished training! Best epoch filename: epoch3.pt'' []]"
  by (simp add: run_defs quiet_def program_def)

text \<open>
  C9. A run for the task \<open>ACTION_GENERATOR\<close> with a factory that returns a wrapper of
  another class: in a running interpreter it ends at line 100 with the \<open>NameError\<close> for
  \<open>model_args\<close>, not at the assertion of line 113; with that name bound it ends at the
  assertion (\<open>assertion_when_names_bound\<close>, for every such run).
\<close>

theorem wrong_wrapper_run_stops_before_assertion:
  "outcome (train False misbuilt (program ACTION_GENERATOR False False)) Map.empty
     = Inl (NameError ''model_args'') \<and>
   outcome (train True misbuilt (program ACTION_GENERATOR False False)) Map.empty
     = Inl AssertionError"
  by (simp add: run_defs misbuilt_def quiet_def program_def)

lemma assertion_when_names_bound:
  assumes "args_get_task (get_model_args args) = ACTION_GENERATOR"
    and "fst m \<noteq> ActionGeneratorModelWrapper"
  shows "train_evaluation True env args m fs =
     (([Logging_info ''Running on dev after training for action prediction...''], fs),
      Inl AssertionError)"
  using assms by (simp add: train_evaluation_def Let_def io_defs)

lemma branching_when_names_bound:
  "prefix (filter evaluation_event (events (train_evaluation True env args m) fs))
     (case args_get_task (get_model_args args) of
        PLAN_PREDICTOR \<Rightarrow> [Plan_metric_results]
      | ACTION_GENERATOR \<Rightarrow> [Execution_accuracies]
      | OTHER_TASK name \<Rightarrow> [])"
proof (cases "args_get_task (get_model_args args)")
  case PLAN_PREDICTOR
  then show ?thesis
    by (simp add: train_evaluation_def Let_def events_def io_defs split: option.splits)
next
  case ACTION_GENERATOR
  have r: "filter evaluation_event (events (report_results True env ta items) fs') = []"
    for ta items fs'
    by (rule silent_report_results [unfolded silent_def, rule_format]) simp_all
  have e: "events (external True env ns ev) fs' = [ev]"
    if "load_globals True ns = (returns () :: ('a, unit) io)" for ns ev fs'
    using that by (simp add: external_def events_def collaborator_def)
  from ACTION_GENERATOR show ?thesis
    by (simp add: train_evaluation_def Let_def filter_events_bind e r logging_info_def
          split: sum.splits)
next
  case (OTHER_TASK name)
  then show ?thesis
    by (simp add: train_evaluation_def Let_def)
qed

end
